theory Spec2Isabelle
  imports Complex_Main "HOL-Library.Log_Nat"
begin

section \<open>Helper functions of the Chile wildfire notebook (functions.ipynb)\<close>

text \<open>
  The notebook defines three data functions (\<open>generate_geographical_subset\<close>,
  \<open>select_channels_for_rgb\<close>, \<open>normalize\<close>) and two plotting functions. Each is one
  or two lines of Python calling xarray, numpy or matplotlib; the library calls are
  embedded here as HOL functions and the notebook functions are written on top of them,
  line by line.

  A coordinate is a \<open>real\<close>, and a data value is a real or one of the three IEEE
  special values. Signed zeros are not part of the embedding. Where a statement depends
  on the rounding of float64 arithmetic, the arithmetic is modelled with its rounding;
  elsewhere numbers are exact.
\<close>

subsection \<open>Errors\<close>

datatype py_error = KeyError string | ValueError | AttributeError

subsection \<open>\<open>select_channels_for_rgb\<close>\<close>

text \<open>
  \<^verbatim>\<open>
  def select_channels_for_rgb(xarray, red_channel, green_channel, blue_channel):
      return xarray[red_channel], xarray[green_channel], xarray[blue_channel]
  \<close>
  The function indexes its container three times. For a plain mapping (a dict of
  arrays) the container is a map from channel names to whatever is registered under them
  (an array, or a reference to one), and \<open>xarray[k]\<close> raises \<open>KeyError\<close> for an absent
  key. The tuple is evaluated left to right, so the first failing lookup is the one
  reported.
\<close>

definition getitem :: "(string \<rightharpoonup> 'a) \<Rightarrow> string \<Rightarrow> py_error + 'a" where
  "getitem m k = (case m k of None \<Rightarrow> Inl (KeyError k) | Some v \<Rightarrow> Inr v)"

definition select_channels_for_rgb ::
  "(string \<rightharpoonup> 'a) \<Rightarrow> string \<Rightarrow> string \<Rightarrow> string \<Rightarrow> py_error + ('a \<times> 'a \<times> 'a)" where
  "select_channels_for_rgb xarray red_channel green_channel blue_channel =
     (case getitem xarray red_channel of Inl e \<Rightarrow> Inl e | Inr r \<Rightarrow>
      case getitem xarray green_channel of Inl e \<Rightarrow> Inl e | Inr g \<Rightarrow>
      case getitem xarray blue_channel of Inl e \<Rightarrow> Inl e | Inr b \<Rightarrow> Inr (r, g, b))"


fun split_first_dot :: "string \<Rightarrow> (string \<times> string) option" where
  "split_first_dot [] = None"
| "split_first_dot (c # cs) =
     (if c = CHR ''.'' then Some ([], cs)
      else map_option (\<lambda>(ref_name, var_name). (c # ref_name, var_name)) (split_first_dot cs))"




subsection \<open>Labelled grids\<close>

text \<open>
  A data value is a finite number or one of the IEEE special values that the array
  library produces by itself: \<open>NaN\<close> fills masked cells and is the result of \<open>0/0\<close>.
\<close>

datatype val = Fin real | PInf | NInf | NaN

text \<open>
  An \<open>xarray.DataArray\<close> with the two one-dimensional coordinate axes \<open>latitude\<close> and
  \<open>longitude\<close>: \<open>vals g ! i ! j\<close> is the cell at \<open>latitude g ! i\<close> and
  \<open>longitude g ! j\<close>.
\<close>

record grid =
  latitude :: "real list"
  longitude :: "real list"
  vals :: "val list list"

definition wf_grid :: "grid \<Rightarrow> bool" where
  "wf_grid g = (length (vals g) = length (latitude g)
     \<and> list_all (\<lambda>row. length row = length (longitude g)) (vals g))"

subsection \<open>The array library: coordinates, boolean indexing, \<open>where\<close>\<close>

text \<open>\<open>x % 360\<close> on numbers: the floored remainder, with the sign of the divisor.\<close>

definition mod_360 :: "real \<Rightarrow> real" where
  "mod_360 x = x - 360 * of_int \<lfloor>x / 360\<rfloor>"

text \<open>\<open>assign_coords(longitude=...)\<close> returns a grid with the longitude axis replaced.\<close>

definition assign_coords_longitude :: "grid \<Rightarrow> real list \<Rightarrow> grid" where
  "assign_coords_longitude g lons = g\<lparr>longitude := lons\<rparr>"

text \<open>\<open>isel\<close> with a boolean indexer keeps the positions where the indexer is true.\<close>

definition isel :: "'a list \<Rightarrow> bool list \<Rightarrow> 'a list" where
  "isel xs keep = map fst (filter snd (zip xs keep))"

text \<open>
  \<open>cond.any(dim=...)\<close> over all dimensions but one: for each latitude, whether the
  condition holds at some longitude, and for each of the \<open>n\<close> longitudes, whether it
  holds at some latitude.
\<close>

definition any_along_longitude :: "bool list list \<Rightarrow> bool list" where
  "any_along_longitude cond = map (list_ex (\<lambda>b. b)) cond"

definition any_along_latitude :: "nat \<Rightarrow> bool list list \<Rightarrow> bool list" where
  "any_along_latitude n cond = map (\<lambda>j. list_ex (\<lambda>row. row ! j) cond) [0..<n]"

text \<open>
  \<open>xarray.where(cond, drop=True)\<close>: the indexers of both dimensions are computed from
  the condition, array and condition are cut down to them with \<open>isel\<close>, and the cells
  that are left are kept where the condition holds and replaced by \<open>NaN\<close> elsewhere.
\<close>

definition where_method :: "val list list \<Rightarrow> bool list list \<Rightarrow> val list list" where
  "where_method vs cond = map2 (map2 (\<lambda>v b. if b then v else NaN)) vs cond"

definition where_drop :: "grid \<Rightarrow> bool list list \<Rightarrow> grid" where
  "where_drop g cond =
     (let lat_indexer = any_along_longitude cond;
          lon_indexer = any_along_latitude (length (longitude g)) cond;
          g' = \<lparr>latitude = isel (latitude g) lat_indexer,
                longitude = isel (longitude g) lon_indexer,
                vals = map (\<lambda>row. isel row lon_indexer) (isel (vals g) lat_indexer)\<rparr>;
          cond' = map (\<lambda>row. isel row lon_indexer) (isel cond lat_indexer)
      in g'\<lparr>vals := where_method (vals g') cond'\<rparr>)"

subsection \<open>\<open>generate_geographical_subset\<close>\<close>

text \<open>
  \<^verbatim>\<open>
  def generate_geographical_subset(xarray, latmin, latmax, lonmin, lonmax, reassign=False):
      if(reassign):
          xarray = xarray.assign_coords(longitude=(((xarray.longitude + 180) % 360) - 180))
      return xarray.where((xarray.latitude < latmax) & (xarray.latitude > latmin)
                          & (xarray.longitude < lonmax) & (xarray.longitude > lonmin),drop=True)
  \<close>
  The comparisons on the latitude axis and on the longitude axis broadcast against each
  other to a condition with one row per latitude and one column per longitude.
\<close>

definition generate_geographical_subset ::
  "grid \<Rightarrow> real \<Rightarrow> real \<Rightarrow> real \<Rightarrow> real \<Rightarrow> bool \<Rightarrow> grid" where
  "generate_geographical_subset xarray latmin latmax lonmin lonmax reassign =
     (let xarray = (if reassign
            then assign_coords_longitude xarray
                   (map (\<lambda>lon. mod_360 (lon + 180) - 180) (longitude xarray))
            else xarray)
      in where_drop xarray
           (map (\<lambda>lat. map (\<lambda>lon. lat < latmax \<and> lat > latmin \<and> lon < lonmax \<and> lon > lonmin)
                         (longitude xarray))
                (latitude xarray)))"

subsection \<open>The remap in float64 arithmetic\<close>

text \<open>
  \<open>generate_geographical_subset\<close> above takes the arithmetic of the remap exact. On
  float64 coordinates each of the three operations of
  \<open>((xarray.longitude + 180) % 360) - 180\<close> returns the float64 nearest to its exact
  result, the one with an even last digit on a tie. A float64 value is a real that
  rounding leaves as it is; \<open>exponent x\<close> is the power of two at or below \<open>\<bar>x\<bar>\<close>, and
  a float64 value in that binade is a multiple of \<open>ulp64 x\<close>, 52 binary digits further
  down. The exponent range is not limited: the sums and differences of the remap do not
  overflow, and where a result is below the normal range it is exact.
\<close>

definition exponent :: "real \<Rightarrow> int" where
  "exponent x =
     (if 1 \<le> \<bar>x\<bar> then bitlen \<lfloor>\<bar>x\<bar>\<rfloor> - 1 else - bitlen (\<lceil>1 / \<bar>x\<bar>\<rceil> - 1))"

definition ulp64 :: "real \<Rightarrow> real" where
  "ulp64 x = 2 powi (exponent x - 52)"

definition round_half_even :: "real \<Rightarrow> int" where
  "round_half_even y =
     (let f = \<lfloor>y\<rfloor>; d = y - of_int f
      in if d < 1 / 2 then f else if 1 / 2 < d then f + 1 else if even f then f else f + 1)"

definition round64 :: "real \<Rightarrow> real" where
  "round64 x =
     (if x = 0 then 0 else of_int (round_half_even (x / ulp64 x)) * ulp64 x)"





subsection \<open>Arithmetic and reductions on data values\<close>

text \<open>
  Subtraction, division and comparison of the array library on float64 data values, with
  the IEEE results for the special values: \<open>inf - inf\<close>, \<open>inf / inf\<close> and \<open>0 / 0\<close>
  are \<open>NaN\<close>, a non-zero number divided by zero is an infinity, every operation on
  \<open>NaN\<close> is \<open>NaN\<close>, and every comparison with \<open>NaN\<close> is false. Division by zero
  does not raise on arrays. A result whose magnitude reaches the overflow threshold of
  float64, \<open>2^1024 - 2^970\<close>, is an infinity. The rounding of a result inside the range
  is not modelled, and arrays of an integer dtype, whose subtraction wraps around, are
  not covered.
\<close>

definition overflow_threshold :: real where
  "overflow_threshold = 2 ^ 1024 - 2 ^ 970"

definition float64_result :: "real \<Rightarrow> val" where
  "float64_result z =
     (if overflow_threshold \<le> z then PInf
      else if z \<le> - overflow_threshold then NInf
      else Fin z)"

fun fsub :: "val \<Rightarrow> val \<Rightarrow> val" where
  "fsub (Fin a) (Fin b) = float64_result (a - b)"
| "fsub NaN _ = NaN"
| "fsub _ NaN = NaN"
| "fsub PInf PInf = NaN"
| "fsub NInf NInf = NaN"
| "fsub PInf _ = PInf"
| "fsub NInf _ = NInf"
| "fsub (Fin a) PInf = NInf"
| "fsub (Fin a) NInf = PInf"

fun fdiv :: "val \<Rightarrow> val \<Rightarrow> val" where
  "fdiv (Fin a) (Fin b) =
     (if b \<noteq> 0 then float64_result (a / b)
      else if a = 0 then NaN else if 0 < a then PInf else NInf)"
| "fdiv NaN _ = NaN"
| "fdiv _ NaN = NaN"
| "fdiv (Fin a) _ = Fin 0"
| "fdiv _ PInf = NaN"
| "fdiv _ NInf = NaN"
| "fdiv PInf (Fin b) = (if 0 \<le> b then PInf else NInf)"
| "fdiv NInf (Fin b) = (if 0 \<le> b then NInf else PInf)"

fun vless :: "val \<Rightarrow> val \<Rightarrow> bool" where
  "vless (Fin a) (Fin b) = (a < b)"
| "vless NaN _ = False"
| "vless _ NaN = False"
| "vless _ NInf = False"
| "vless NInf _ = True"
| "vless PInf _ = False"
| "vless (Fin a) PInf = True"

text \<open>
  \<open>array.min()\<close> and \<open>array.max()\<close> over all cells of a non-empty array. A numpy array
  propagates \<open>NaN\<close> (\<open>skipna = False\<close>); an \<open>xarray.DataArray\<close> of floats skips the
  \<open>NaN\<close> cells (\<open>skipna = True\<close>) and yields \<open>NaN\<close> only when every cell is \<open>NaN\<close>.
\<close>

definition reduce_cells :: "(val \<Rightarrow> val \<Rightarrow> val) \<Rightarrow> bool \<Rightarrow> val list \<Rightarrow> val" where
  "reduce_cells pick skipna cells =
     (let cs = (if skipna then filter (\<lambda>v. v \<noteq> NaN) cells else cells)
      in if NaN \<in> set cs then NaN
         else case cs of [] \<Rightarrow> NaN | c # cs' \<Rightarrow> fold pick cs' c)"

definition array_min :: "bool \<Rightarrow> val list \<Rightarrow> val" where
  "array_min = reduce_cells (\<lambda>v m. if vless v m then v else m)"

definition array_max :: "bool \<Rightarrow> val list \<Rightarrow> val" where
  "array_max = reduce_cells (\<lambda>v m. if vless m v then v else m)"

subsection \<open>\<open>normalize\<close>\<close>

text \<open>
  \<^verbatim>\<open>
  def normalize(array):
      array_min, array_max = array.min(), array.max()
      return ((array - array_min)/(array_max - array_min))
  \<close>
  The reductions raise \<open>ValueError\<close> on an array without cells. The arithmetic is
  elementwise against the two scalars and keeps the coordinates of the array.
\<close>

definition normalize :: "bool \<Rightarrow> grid \<Rightarrow> py_error + grid" where
  "normalize skipna array =
     (let cells = concat (vals array)
      in if cells = [] then Inl ValueError
         else let array_min = array_min skipna cells;
                  array_max = array_max skipna cells
              in Inr (array\<lparr>vals :=
                   map (map (\<lambda>v. fdiv (fsub v array_min) (fsub array_max array_min)))
                       (vals array)\<rparr>))"

subsection \<open>Objects and references\<close>

text \<open>
  Python passes references. To state what a call does to the objects of its caller, the
  array objects live in a heap, a reference is an index into it, and creating an object
  appends it. Every method the functions call (\<open>assign_coords\<close>, \<open>where\<close>, the
  arithmetic operators) returns a new object and writes to no existing one; the
  assignment \<open>xarray = xarray.assign_coords(...)\<close> rebinds the local name only. The
  functions below are the notebook's functions on references; the temporaries of
  \<open>normalize\<close> are not retained. Indexing a container hands out the references it
  holds.
\<close>

type_synonym ref = nat

type_synonym heap = "grid list"

definition alloc :: "heap \<Rightarrow> grid \<Rightarrow> heap \<times> ref" where
  "alloc h g = (h @ [g], length h)"

definition assign_coords_obj :: "heap \<Rightarrow> ref \<Rightarrow> real list \<Rightarrow> heap \<times> ref" where
  "assign_coords_obj h r lons = alloc h (assign_coords_longitude (h ! r) lons)"

definition where_obj :: "heap \<Rightarrow> ref \<Rightarrow> bool list list \<Rightarrow> heap \<times> ref" where
  "where_obj h r cond = alloc h (where_drop (h ! r) cond)"

definition generate_geographical_subset_obj ::
  "heap \<Rightarrow> ref \<Rightarrow> real \<Rightarrow> real \<Rightarrow> real \<Rightarrow> real \<Rightarrow> bool \<Rightarrow> heap \<times> ref" where
  "generate_geographical_subset_obj h xarray latmin latmax lonmin lonmax reassign =
     (let (h, xarray) = (if reassign
            then assign_coords_obj h xarray
                   (map (\<lambda>lon. mod_360 (lon + 180) - 180) (longitude (h ! xarray)))
            else (h, xarray))
      in where_obj h xarray
           (map (\<lambda>lat. map (\<lambda>lon. lat < latmax \<and> lat > latmin \<and> lon < lonmax \<and> lon > lonmin)
                         (longitude (h ! xarray)))
                (latitude (h ! xarray))))"

definition normalize_obj :: "bool \<Rightarrow> heap \<Rightarrow> ref \<Rightarrow> heap \<times> (py_error + ref)" where
  "normalize_obj skipna h array =
     (case normalize skipna (h ! array) of
        Inl e \<Rightarrow> (h, Inl e)
      | Inr g \<Rightarrow> (let (h', r) = alloc h g in (h', Inr r)))"

definition select_channels_for_rgb_obj ::
  "heap \<Rightarrow> (string \<rightharpoonup> ref) \<Rightarrow> string \<Rightarrow> string \<Rightarrow> string
     \<Rightarrow> heap \<times> (py_error + (ref \<times> ref \<times> ref))" where
  "select_channels_for_rgb_obj h xarray red_channel green_channel blue_channel =
     (h, select_channels_for_rgb xarray red_channel green_channel blue_channel)"

text \<open>\<open>frame h h'\<close>: every object of \<open>h\<close> is still there in \<open>h'\<close>, unchanged.\<close>

definition frame :: "heap \<Rightarrow> heap \<Rightarrow> bool" where
  "frame h h' = (length h \<le> length h' \<and> (\<forall>p<length h. h' ! p = h ! p))"

subsection \<open>\<open>visualize_pcolormesh\<close>\<close>




subsection \<open>Notation for the statements, and example grids\<close>

text \<open>
  \<open>inside lo hi x\<close> is the filter's test on one axis, \<open>reassigned lon\<close> the remap of
  one longitude; both unfold to the expressions of the source.
\<close>

abbreviation inside :: "real \<Rightarrow> real \<Rightarrow> real \<Rightarrow> bool" where
  "inside lo hi x \<equiv> lo < x \<and> x < hi"

abbreviation reassigned :: "real \<Rightarrow> real" where
  "reassigned lon \<equiv> mod_360 (lon + 180) - 180"

text \<open>The numbers among the cells of an array, in order.\<close>

fun fins :: "val list \<Rightarrow> real list" where
  "fins [] = []"
| "fins (Fin x # vs) = x # fins vs"
| "fins (v # vs) = fins vs"

abbreviation empty_grid :: grid where
  "empty_grid \<equiv> \<lparr>latitude = [], longitude = [], vals = []\<rparr>"

definition example_grid :: grid where
  "example_grid = \<lparr>latitude = [- 20, 0, 10], longitude = [0, 5, 10, 15],
     vals = [[Fin 1, Fin 2, Fin 3, Fin 4], [Fin 5, Fin 6, Fin 7, Fin 8],
             [Fin 9, Fin 10, Fin 11, Fin 12]]\<rparr>"

definition scenario_grid :: grid where
  "scenario_grid = \<lparr>latitude = [- 10, 0, 10], longitude = [350, 355, 0, 5, 10],
     vals = [[Fin 1, Fin 2, Fin 3, Fin 4, Fin 5], [Fin 6, Fin 7, Fin 8, Fin 9, Fin 10],
             [Fin 11, Fin 12, Fin 13, Fin 14, Fin 15]]\<rparr>"

definition ramp_grid :: grid where
  "ramp_grid = \<lparr>latitude = [0, 1], longitude = [10, 20],
     vals = [[Fin 2, Fin 4], [Fin 6, Fin 10]]\<rparr>"

definition unbounded_grid :: grid where
  "unbounded_grid = \<lparr>latitude = [0], longitude = [10, 20, 30],
     vals = [[Fin 1, Fin 2, PInf]]\<rparr>"

definition half_range :: real where
  "half_range = 3 * 2 ^ 1022"

definition wide_grid :: grid where
  "wide_grid = \<lparr>latitude = [0], longitude = [10, 20],
     vals = [[Fin (- half_range), Fin half_range]]\<rparr>"

definition masked_grid :: grid where
  "masked_grid = \<lparr>latitude = [0], longitude = [10, 20, 30],
     vals = [[Fin 1, NaN, Fin 3]]\<rparr>"

definition flat_grid :: grid where
  "flat_grid = \<lparr>latitude = [0, 1], longitude = [10, 20],
     vals = [[Fin 3, Fin 3], [Fin 3, Fin 3]]\<rparr>"

definition heap_example :: heap where
  "heap_example = [scenario_grid]"








section \<open>Properties\<close>

subsection \<open>Channel selection\<close>

lemma getitem_Some: "m k = Some v \<Longrightarrow> getitem m k = Inr v"
  by (simp add: getitem_def)

lemma getitem_None: "m k = None \<Longrightarrow> getitem m k = Inl (KeyError k)"
  by (simp add: getitem_def)

text \<open>
  Claim C6. When all three requested keys are registered, the function returns exactly
  the three registered entries as a triple in (red, green, blue) order. The entries are
  handed out as they are stored (the function is polymorphic in them, so it can neither
  copy nor alter them), and the function has no access to anything but its arguments.
\<close>

theorem select_channels_for_rgb_present:
  assumes "m red_key = Some X" and "m green_key = Some Y" and "m blue_key = Some Z"
  shows "select_channels_for_rgb m red_key green_key blue_key = Inr (X, Y, Z)"
  using assms by (simp add: select_channels_for_rgb_def getitem_Some)

theorem select_channels_for_rgb_present_witness:
  "[''a'' \<mapsto> (1::nat), ''b'' \<mapsto> 2, ''c'' \<mapsto> 3] ''a'' = Some 1
   \<and> [''a'' \<mapsto> (1::nat), ''b'' \<mapsto> 2, ''c'' \<mapsto> 3] ''b'' = Some 2
   \<and> [''a'' \<mapsto> (1::nat), ''b'' \<mapsto> 2, ''c'' \<mapsto> 3] ''c'' = Some 3
   \<and> select_channels_for_rgb [''a'' \<mapsto> (1::nat), ''b'' \<mapsto> 2, ''c'' \<mapsto> 3] ''a'' ''b'' ''c''
       = Inr (1, 2, 3)"
proof -
  let ?m = "[''a'' \<mapsto> (1::nat), ''b'' \<mapsto> 2, ''c'' \<mapsto> 3]"
  have a: "?m ''a'' = Some 1" and b: "?m ''b'' = Some 2" and c: "?m ''c'' = Some 3"
    by simp_all
  from select_channels_for_rgb_present [of ?m "''a''" 1 "''b''" 2 "''c''" 3] a b c
  show ?thesis by simp
qed


lemma split_first_dot_time_year: "split_first_dot ''time.year'' = Some (''time'', ''year'')"
  by simp






subsection \<open>Geographical subsets\<close>

lemma isel_Nil [simp]: "isel [] keep = []" "isel xs [] = []"
  by (simp_all add: isel_def)

lemma isel_Cons [simp]: "isel (x # xs) (b # bs) = (if b then x # isel xs bs else isel xs bs)"
  by (simp add: isel_def)

lemma isel_map_filter: "isel (map f xs) (map P xs) = map f (filter P xs)"
  by (induction xs) simp_all

lemma isel_filter: "isel xs (map P xs) = filter P xs"
  using isel_map_filter [of "\<lambda>x. x" xs P] by simp

lemma isel_none: "\<forall>y\<in>set ys. \<not> M y \<Longrightarrow> isel xs (map M ys) = []"
  by (induction xs arbitrary: ys) (case_tac ys; simp)+


lemma set_isel: "set (isel xs keep) \<subseteq> set xs"
  by (auto simp: isel_def dest: set_zip_leftD)

lemma length_isel_map: "length xs = length ys \<Longrightarrow> length (isel xs (map P ys)) = length (filter P ys)"
  by (induction xs ys rule: list_induct2) simp_all

text \<open>
  On a condition that is not a product of a latitude test and a longitude test,
  \<open>where\<close> with \<open>drop=True\<close> masks inside the block it keeps: the third row and the
  second column go, and the two cells of the kept block where the condition fails
  become \<open>NaN\<close>.
\<close>

lemma where_drop_masks_inside_the_kept_block:
  "where_drop \<lparr>latitude = [1, 2, 3], longitude = [10, 20, 30],
                vals = [[Fin 1, Fin 2, Fin 3], [Fin 4, Fin 5, Fin 6], [Fin 7, Fin 8, Fin 9]]\<rparr>
     [[True, False, False], [False, False, True], [False, False, False]]
   = \<lparr>latitude = [1, 2], longitude = [10, 30], vals = [[Fin 1, NaN], [NaN, Fin 6]]\<rparr>"
  by (simp add: where_drop_def where_method_def any_along_longitude_def any_along_latitude_def
      upt_conv_Cons)

text \<open>
  The condition of \<open>generate_geographical_subset\<close> is such a product, and on a product
  nothing is masked.
\<close>

lemma any_along_longitude_product:
  "any_along_longitude (map (\<lambda>lat. map (\<lambda>lon. P lat \<and> Q lon) lons) lats)
     = map (\<lambda>lat. P lat \<and> (\<exists>lon\<in>set lons. Q lon)) lats"
  by (auto simp: any_along_longitude_def list_ex_iff)

lemma any_along_latitude_product:
  "any_along_latitude (length lons) (map (\<lambda>lat. map (\<lambda>lon. P lat \<and> Q lon) lons) lats)
     = map (\<lambda>lon. (\<exists>lat\<in>set lats. P lat) \<and> Q lon) lons"
  by (rule nth_equalityI) (auto simp: any_along_latitude_def list_ex_iff)

lemma where_method_all_true:
  "length ls = length rows \<Longrightarrow> \<forall>r\<in>set rows. length r = length cs \<Longrightarrow>
   where_method rows (map (\<lambda>l. map (\<lambda>c. True) cs) ls) = rows"
proof (induction ls rows rule: list_induct2)
  case Nil
  then show ?case by (simp add: where_method_def)
next
  case (Cons l ls r rows)
  have "map2 (\<lambda>v b. if b then v else NaN) r (map (\<lambda>c. True) cs) = r"
    using Cons.prems by (intro nth_equalityI) simp_all
  with Cons show ?case by (simp add: where_method_def)
qed

lemma where_drop_product:
  assumes "wf_grid g"
  shows "where_drop g (map (\<lambda>lat. map (\<lambda>lon. P lat \<and> Q lon) (longitude g)) (latitude g)) =
     (if (\<exists>lat\<in>set (latitude g). P lat) \<and> (\<exists>lon\<in>set (longitude g). Q lon)
      then \<lparr>latitude = filter P (latitude g), longitude = filter Q (longitude g),
            vals = map (\<lambda>row. isel row (map Q (longitude g))) (isel (vals g) (map P (latitude g)))\<rparr>
      else \<lparr>latitude = [], longitude = [], vals = []\<rparr>)"
proof (cases "(\<exists>lat\<in>set (latitude g). P lat) \<and> (\<exists>lon\<in>set (longitude g). Q lon)")
  case True
  let ?lats = "latitude g" and ?lons = "longitude g"
  let ?cond = "map (\<lambda>lat. map (\<lambda>lon. P lat \<and> Q lon) ?lons) ?lats"
  have lat_idx: "any_along_longitude ?cond = map P ?lats"
    using True by (simp add: any_along_longitude_product)
  have lon_idx: "any_along_latitude (length ?lons) ?cond = map Q ?lons"
    using True by (simp add: any_along_latitude_product)
  let ?rows = "map (\<lambda>row. isel row (map Q ?lons)) (isel (vals g) (map P ?lats))"
  have cond': "map (\<lambda>row. isel row (map Q ?lons)) (isel ?cond (map P ?lats))
      = map (\<lambda>lat. map (\<lambda>lon. True) (filter Q ?lons)) (filter P ?lats)"
    by (simp add: isel_map_filter)
  have len: "length (filter P ?lats) = length ?rows"
    using assms by (simp add: wf_grid_def length_isel_map)
  have "\<forall>r\<in>set (isel (vals g) (map P ?lats)). length r = length ?lons"
    using assms set_isel [of "vals g" "map P ?lats"] by (auto simp: wf_grid_def list_all_iff)
  then have rows: "\<forall>r\<in>set ?rows. length r = length (filter Q ?lons)"
    by (auto simp: length_isel_map)
  have "where_method ?rows (map (\<lambda>lat. map (\<lambda>lon. True) (filter Q ?lons)) (filter P ?lats)) = ?rows"
    using len rows by (rule where_method_all_true)
  with True lat_idx lon_idx cond' show ?thesis
    by (simp add: where_drop_def isel_filter)
next
  case False
  let ?lats = "latitude g" and ?lons = "longitude g"
  let ?cond = "map (\<lambda>lat. map (\<lambda>lon. P lat \<and> Q lon) ?lons) ?lats"
  have lat_idx: "isel xs (any_along_longitude ?cond) = []" for xs :: "'b list"
    using False by (auto simp: any_along_longitude_product intro!: isel_none)
  have lon_idx: "isel xs (any_along_latitude (length ?lons) ?cond) = []" for xs :: "'b list"
    using False by (auto simp: any_along_latitude_product intro!: isel_none)
  from False show ?thesis
    by (auto simp add: where_drop_def lat_idx lon_idx where_method_def)
qed





lemma subset_char:
  assumes "wf_grid g"
    and "lons = (if reassign then map reassigned (longitude g) else longitude g)"
  shows "generate_geographical_subset g latmin latmax lonmin lonmax reassign =
     (if (\<exists>lat\<in>set (latitude g). inside latmin latmax lat) \<and> (\<exists>lon\<in>set lons. inside lonmin lonmax lon)
      then \<lparr>latitude = filter (inside latmin latmax) (latitude g),
            longitude = filter (inside lonmin lonmax) lons,
            vals = map (\<lambda>row. isel row (map (inside lonmin lonmax) lons))
                       (isel (vals g) (map (inside latmin latmax) (latitude g)))\<rparr>
      else empty_grid)"
proof -
  have c: "(\<lambda>lat. map (\<lambda>lon. lat < latmax \<and> lat > latmin \<and> lon < lonmax \<and> lon > lonmin) lons)
      = (\<lambda>lat. map (\<lambda>lon. inside latmin latmax lat \<and> inside lonmin lonmax lon) lons)" for lons
    by auto
  show ?thesis
  proof (cases reassign)
    case True
    let ?g1 = "assign_coords_longitude g (map reassigned (longitude g))"
    have wf1: "wf_grid ?g1"
      using assms(1) by (simp add: wf_grid_def assign_coords_longitude_def)
    have sel: "latitude ?g1 = latitude g" "longitude ?g1 = map reassigned (longitude g)"
      "vals ?g1 = vals g"
      by (simp_all add: assign_coords_longitude_def)
    have "generate_geographical_subset g latmin latmax lonmin lonmax reassign
        = where_drop ?g1 (map (\<lambda>lat. map (\<lambda>lon. inside latmin latmax lat \<and> inside lonmin lonmax lon)
             (longitude ?g1)) (latitude ?g1))"
      using True unfolding generate_geographical_subset_def Let_def c by simp
    also note where_drop_product [OF wf1, of "inside latmin latmax" "inside lonmin lonmax"]
    finally have eq: "generate_geographical_subset g latmin latmax lonmin lonmax reassign = 
       (if (\<exists>lat\<in>set (latitude ?g1). inside latmin latmax lat) \<and>
           (\<exists>lon\<in>set (longitude ?g1). inside lonmin lonmax lon)
        then \<lparr>latitude = filter (inside latmin latmax) (latitude ?g1),
              longitude = filter (inside lonmin lonmax) (longitude ?g1),
              vals = map (\<lambda>row. isel row (map (inside lonmin lonmax) (longitude ?g1)))
                         (isel (vals ?g1) (map (inside latmin latmax) (latitude ?g1)))\<rparr>
        else empty_grid)" .
    show ?thesis
      unfolding eq sel using True assms(2) by auto
  next
    case False
    have "generate_geographical_subset g latmin latmax lonmin lonmax reassign
        = where_drop g (map (\<lambda>lat. map (\<lambda>lon. inside latmin latmax lat \<and> inside lonmin lonmax lon)
             (longitude g)) (latitude g))"
      using False unfolding generate_geographical_subset_def Let_def c by simp
    also note where_drop_product [OF assms(1), of "inside latmin latmax" "inside lonmin lonmax"]
    finally have eq: "generate_geographical_subset g latmin latmax lonmin lonmax reassign = 
       (if (\<exists>lat\<in>set (latitude g). inside latmin latmax lat) \<and>
           (\<exists>lon\<in>set (longitude g). inside lonmin lonmax lon)
        then \<lparr>latitude = filter (inside latmin latmax) (latitude g),
              longitude = filter (inside lonmin lonmax) (longitude g),
              vals = map (\<lambda>row. isel row (map (inside lonmin lonmax) (longitude g)))
                         (isel (vals g) (map (inside latmin latmax) (latitude g)))\<rparr>
        else empty_grid)" .
    show ?thesis
      unfolding eq using False assms(2) by auto
  qed
qed

lemma wf_grid_kept:
  assumes "wf_grid g" and "length lons = length (longitude g)"
  shows "wf_grid \<lparr>latitude = filter P (latitude g), longitude = filter Q lons,
           vals = map (\<lambda>row. isel row (map Q lons)) (isel (vals g) (map P (latitude g)))\<rparr>"
proof -
  have "\<forall>r\<in>set (isel (vals g) (map P (latitude g))). length r = length lons"
    using assms set_isel [of "vals g" "map P (latitude g)"]
    by (auto simp: wf_grid_def list_all_iff)
  then show ?thesis
    using assms by (simp add: wf_grid_def list_all_iff length_isel_map)
qed

lemma wf_grid_empty: "wf_grid empty_grid"
  by (simp add: wf_grid_def)


lemma isel_middle_three:
  "length row = 5 \<Longrightarrow> isel row [False, True, True, True, False] = [row ! 1, row ! 2, row ! 3]"
proof -
  assume "length row = 5"
  then obtain a b c d e where "row = [a, b, c, d, e]"
    by (auto simp: numeral_eq_Suc length_Suc_conv)
  then show ?thesis by simp
qed

lemma scenario_remap: "map reassigned [350, 355, 0, 5, 10] = [- 10, - 5, 0, 5, 10]"
  by (simp add: mod_360_def)

text \<open>
  Claim C1. For a grid with latitude and longitude axes and any bounding box, the result
  consists of exactly the rows whose latitude and the columns whose longitude lie
  strictly inside the box (\<open>lons\<close> is the longitude axis that is compared: the
  grid's own, or the remapped one under \<open>reassign\<close>). Every coordinate of the result
  is strictly between the bounds, so a coordinate equal to a bound is excluded. The rows
  and columns outside are removed, not masked: the cells that are left are the original
  ones, and the result is again a well-formed grid whose shape is that of the retained
  coordinates. When no latitude or no longitude is inside the box, the result is the
  empty grid.
\<close>

theorem generate_geographical_subset_strict_box:
  assumes "wf_grid g"
    and "lons = (if reassign then map reassigned (longitude g) else longitude g)"
    and "r = generate_geographical_subset g latmin latmax lonmin lonmax reassign"
  shows "r = (if (\<exists>lat\<in>set (latitude g). latmin < lat \<and> lat < latmax)
                 \<and> (\<exists>lon\<in>set lons. lonmin < lon \<and> lon < lonmax)
              then \<lparr>latitude = filter (\<lambda>lat. latmin < lat \<and> lat < latmax) (latitude g),
                    longitude = filter (\<lambda>lon. lonmin < lon \<and> lon < lonmax) lons,
                    vals = map (\<lambda>row. isel row (map (\<lambda>lon. lonmin < lon \<and> lon < lonmax) lons))
                             (isel (vals g) (map (\<lambda>lat. latmin < lat \<and> lat < latmax) (latitude g)))\<rparr>
              else \<lparr>latitude = [], longitude = [], vals = []\<rparr>)
     \<and> (\<forall>lat\<in>set (latitude r). latmin < lat \<and> lat < latmax)
     \<and> (\<forall>lon\<in>set (longitude r). lonmin < lon \<and> lon < lonmax)
     \<and> latmin \<notin> set (latitude r) \<and> latmax \<notin> set (latitude r)
     \<and> lonmin \<notin> set (longitude r) \<and> lonmax \<notin> set (longitude r)
     \<and> wf_grid r"
proof -
  note char = subset_char [OF assms(1,2), of latmin latmax lonmin lonmax, folded assms(3)]
  have len: "length lons = length (longitude g)" using assms(2) by simp
  have lat: "\<forall>lat\<in>set (latitude r). latmin < lat \<and> lat < latmax"
    unfolding char by simp
  have lon: "\<forall>lon\<in>set (longitude r). lonmin < lon \<and> lon < lonmax"
    unfolding char by simp
  have wf: "wf_grid r"
    unfolding char using wf_grid_kept [OF assms(1) len] wf_grid_empty by simp
  from lat have "latmin \<notin> set (latitude r) \<and> latmax \<notin> set (latitude r)" by auto
  moreover from lon have "lonmin \<notin> set (longitude r) \<and> lonmax \<notin> set (longitude r)" by auto
  ultimately show ?thesis using char lat lon wf by blast
qed

theorem generate_geographical_subset_strict_box_witness:
  "wf_grid example_grid
   \<and> generate_geographical_subset example_grid (- 30) 10 0 15 False
       = \<lparr>latitude = [- 20, 0], longitude = [5, 10],
          vals = [[Fin 2, Fin 3], [Fin 6, Fin 7]]\<rparr>
   \<and> generate_geographical_subset example_grid 20 30 0 15 False
       = \<lparr>latitude = [], longitude = [], vals = []\<rparr>"
proof -
  have wf: "wf_grid example_grid" by (simp add: example_grid_def wf_grid_def)
  have l: "longitude example_grid = (if False then map reassigned (longitude example_grid)
      else longitude example_grid)" by simp
  from generate_geographical_subset_strict_box [OF wf l refl, of "- 30" 10 0 15]
    generate_geographical_subset_strict_box [OF wf l refl, of 20 30 0 15] wf
  show ?thesis by (simp add: example_grid_def)
qed

text \<open>
  Claim C5. A grid with longitude axis \<open>[350, 355, 0, 5, 10]\<close>, subset with
  \<open>reassign=True\<close> to the box \<open>latmin=-10, latmax=10, lonmin=-10, lonmax=10\<close>: the
  axis is remapped to \<open>[-10, -5, 0, 5, 10]\<close>, and of every row whose latitude is
  strictly inside the box exactly the cells at the remapped longitudes \<open>-5, 0, 5\<close>
  (columns 1, 2, 3) are retained. The boundary longitudes \<open>-10\<close> and \<open>10\<close> are
  excluded.
\<close>

theorem scenario_wraparound_subset:
  assumes "wf_grid g" and "longitude g = [350, 355, 0, 5, 10]"
  shows "map (\<lambda>lon. mod_360 (lon + 180) - 180) (longitude g) = [- 10, - 5, 0, 5, 10]
     \<and> generate_geographical_subset g (- 10) 10 (- 10) 10 True =
         (if \<exists>lat\<in>set (latitude g). - 10 < lat \<and> lat < 10
          then \<lparr>latitude = filter (\<lambda>lat. - 10 < lat \<and> lat < 10) (latitude g),
                longitude = [- 5, 0, 5],
                vals = map (\<lambda>row. [row ! 1, row ! 2, row ! 3])
                         (isel (vals g) (map (\<lambda>lat. - 10 < lat \<and> lat < 10) (latitude g)))\<rparr>
          else \<lparr>latitude = [], longitude = [], vals = []\<rparr>)"
proof -
  have remap: "map reassigned (longitude g) = [- 10, - 5, 0, 5, 10]"
    unfolding assms(2) by (rule scenario_remap)
  have l: "[- 10, - 5, 0, 5, 10] = (if True then map reassigned (longitude g) else longitude g)"
    using remap by simp
  have "\<forall>row\<in>set (isel (vals g) (map (inside (- 10) 10) (latitude g))). length row = 5"
    using assms set_isel [of "vals g" "map (inside (- 10) 10) (latitude g)"]
    by (auto simp: wf_grid_def list_all_iff)
  then have rows: "map (\<lambda>row. isel row [False, True, True, True, False])
        (isel (vals g) (map (inside (- 10) 10) (latitude g)))
      = map (\<lambda>row. [row ! 1, row ! 2, row ! 3]) (isel (vals g) (map (inside (- 10) 10) (latitude g)))"
    by (simp add: isel_middle_three)
  have "generate_geographical_subset g (- 10) 10 (- 10) 10 True =
         (if \<exists>lat\<in>set (latitude g). inside (- 10) 10 lat
          then \<lparr>latitude = filter (inside (- 10) 10) (latitude g),
                longitude = [- 5, 0, 5],
                vals = map (\<lambda>row. isel row [False, True, True, True, False])
                         (isel (vals g) (map (inside (- 10) 10) (latitude g)))\<rparr>
          else empty_grid)"
    unfolding subset_char [OF assms(1) l, of "- 10" 10 "- 10" 10] by simp
  with remap rows show ?thesis by simp
qed

theorem scenario_wraparound_subset_witness:
  "wf_grid scenario_grid \<and> longitude scenario_grid = [350, 355, 0, 5, 10]
   \<and> generate_geographical_subset scenario_grid (- 10) 10 (- 10) 10 True
       = \<lparr>latitude = [0], longitude = [- 5, 0, 5], vals = [[Fin 7, Fin 8, Fin 9]]\<rparr>"
proof -
  have wf: "wf_grid scenario_grid" by (simp add: scenario_grid_def wf_grid_def)
  have l: "longitude scenario_grid = [350, 355, 0, 5, 10]" by (simp add: scenario_grid_def)
  from scenario_wraparound_subset [OF wf l] wf l
  show ?thesis by (simp add: scenario_grid_def)
qed



subsection \<open>The remap in float64 arithmetic\<close>





lemma exponent_minus [simp]: "exponent (- x) = exponent x"
  by (simp add: exponent_def)






lemma ulp64_pos [simp]: "0 < ulp64 x"
  by (simp add: ulp64_def)


lemma round64_0 [simp]: "round64 0 = 0"
  by (simp add: round64_def)

lemma ulp64_minus [simp]: "ulp64 (- x) = ulp64 x"
  by (simp add: ulp64_def)





lemma ulp64_nonneg [simp]: "0 \<le> ulp64 x"
  by (simp add: ulp64_def)
































subsection \<open>Normalisation\<close>

lemma fold_min_Fin:
  "fold (\<lambda>v m. if vless v m then v else m) (map Fin ys) (Fin y) = Fin (fold min ys y)"
  by (induction ys arbitrary: y) (auto simp: min_def)

lemma fold_max_Fin:
  "fold (\<lambda>v m. if vless m v then v else m) (map Fin ys) (Fin y) = Fin (fold max ys y)"
  by (induction ys arbitrary: y) (auto simp: max_def)

lemma reduce_cells_Fin:
  "reduce_cells pick skipna (map Fin (y # ys)) = fold pick (map Fin ys) (Fin y)"
proof -
  have "filter (\<lambda>v. v \<noteq> NaN) (map Fin zs) = map Fin zs" for zs
    by (induction zs) simp_all
  moreover have "NaN \<notin> set (map Fin zs)" for zs by auto
  ultimately show ?thesis
    unfolding reduce_cells_def Let_def by (simp del: set_map)
qed

lemma array_min_Fin: "ys \<noteq> [] \<Longrightarrow> array_min skipna (map Fin ys) = Fin (Min (set ys))"
proof (cases ys)
  case (Cons y ys')
  then show ?thesis
    by (simp only: array_min_def reduce_cells_Fin fold_min_Fin Min.set_eq_fold)
qed simp

lemma array_max_Fin: "ys \<noteq> [] \<Longrightarrow> array_max skipna (map Fin ys) = Fin (Max (set ys))"
proof (cases ys)
  case (Cons y ys')
  then show ?thesis
    by (simp only: array_max_def reduce_cells_Fin fold_max_Fin Max.set_eq_fold)
qed simp

lemma concat_map_map: "concat (map (map f) xss) = map f (concat xss)"
  by (induction xss) simp_all

lemma overflow_threshold_ge: "2 ^ 1023 \<le> overflow_threshold"
proof -
  have "(2::real) ^ 970 \<le> 2 ^ 1023" by (rule power_increasing) simp_all
  moreover have "(2::real) ^ 1024 = 2 ^ 1023 + 2 ^ 1023" by simp
  ultimately show ?thesis by (simp add: overflow_threshold_def)
qed

lemma overflow_threshold_gt_1: "1 < overflow_threshold"
proof -
  have "(1::real) < 2 ^ 1023" by simp
  with overflow_threshold_ge show ?thesis by linarith
qed

lemma float64_result_in_range:
  "- overflow_threshold < z \<Longrightarrow> z < overflow_threshold \<Longrightarrow> float64_result z = Fin z"
  by (simp add: float64_result_def)

lemma float64_result_small:
  assumes "\<bar>z\<bar> < 2 ^ 1023"
  shows "float64_result z = Fin z"
proof -
  from assms overflow_threshold_ge
  have "- overflow_threshold < z" and "z < overflow_threshold" by linarith+
  then show ?thesis by (rule float64_result_in_range)
qed

lemma float64_result_0 [simp]: "float64_result 0 = Fin 0"
  using overflow_threshold_gt_1 by (simp add: float64_result_def)

lemma filter_not_NaN:
  "\<forall>v\<in>set cells. v \<noteq> PInf \<and> v \<noteq> NInf \<Longrightarrow>
   filter (\<lambda>v. v \<noteq> NaN) cells = map Fin (fins cells)"
  by (induction cells rule: fins.induct) simp_all

lemma no_NaN_cells:
  "\<forall>v\<in>set cells. v \<noteq> PInf \<and> v \<noteq> NInf \<Longrightarrow> NaN \<notin> set cells \<Longrightarrow>
   cells = map Fin (fins cells)"
  by (induction cells rule: fins.induct) simp_all

lemma set_fins: "x \<in> set (fins cells) \<longleftrightarrow> Fin x \<in> set cells"
  by (induction cells rule: fins.induct) auto

lemma reduce_cells_no_inf:
  assumes "\<forall>v\<in>set cells. v \<noteq> PInf \<and> v \<noteq> NInf"
  shows "reduce_cells pick skipna cells =
     (if \<not> skipna \<and> NaN \<in> set cells then NaN
      else case fins cells of [] \<Rightarrow> NaN | y # ys \<Rightarrow> fold pick (map Fin ys) (Fin y))"
proof (cases "\<not> skipna \<and> NaN \<in> set cells")
  case True
  then show ?thesis by (simp add: reduce_cells_def)
next
  case False
  have cs: "(if skipna then filter (\<lambda>v. v \<noteq> NaN) cells else cells) = map Fin (fins cells)"
    using False assms by (auto simp: filter_not_NaN no_NaN_cells [symmetric])
  have "NaN \<notin> set (map Fin (fins cells))" by auto
  with False show ?thesis
    unfolding reduce_cells_def Let_def cs by (auto simp del: set_map split: list.splits)
qed

lemma array_min_no_inf:
  assumes "\<forall>v\<in>set cells. v \<noteq> PInf \<and> v \<noteq> NInf"
  shows "array_min skipna cells =
     (if (\<not> skipna \<and> NaN \<in> set cells) \<or> fins cells = [] then NaN
      else Fin (Min (set (fins cells))))"
proof (cases "fins cells")
  case Nil
  then show ?thesis
    unfolding array_min_def reduce_cells_no_inf [OF assms] by simp
next
  case (Cons y ys)
  have "fold min ys y = Min (set (y # ys))" by (rule Min.set_eq_fold [symmetric])
  then show ?thesis
    unfolding array_min_def reduce_cells_no_inf [OF assms] Cons by (simp add: fold_min_Fin)
qed

lemma array_max_no_inf:
  assumes "\<forall>v\<in>set cells. v \<noteq> PInf \<and> v \<noteq> NInf"
  shows "array_max skipna cells =
     (if (\<not> skipna \<and> NaN \<in> set cells) \<or> fins cells = [] then NaN
      else Fin (Max (set (fins cells))))"
proof (cases "fins cells")
  case Nil
  then show ?thesis
    unfolding array_max_def reduce_cells_no_inf [OF assms] by simp
next
  case (Cons y ys)
  have "fold max ys y = Max (set (y # ys))" by (rule Max.set_eq_fold [symmetric])
  then show ?thesis
    unfolding array_max_def reduce_cells_no_inf [OF assms] Cons by (simp add: fold_max_Fin)
qed

lemma rescale_cell:
  assumes "mn \<le> x" and "x \<le> mx" and "mn < mx" and "mx - mn < overflow_threshold"
  shows "fdiv (fsub (Fin x) (Fin mn)) (fsub (Fin mx) (Fin mn)) = Fin ((x - mn) / (mx - mn))"
proof -
  note T = overflow_threshold_gt_1
  have a: "float64_result (x - mn) = Fin (x - mn)"
    using assms T by (intro float64_result_in_range) linarith+
  have b: "float64_result (mx - mn) = Fin (mx - mn)"
    using assms T by (intro float64_result_in_range) linarith+
  have "0 \<le> (x - mn) / (mx - mn)" and "(x - mn) / (mx - mn) \<le> 1"
    using assms by simp_all
  then have "float64_result ((x - mn) / (mx - mn)) = Fin ((x - mn) / (mx - mn))"
    using T by (intro float64_result_in_range) linarith+
  with assms(3) show ?thesis by (simp add: a b)
qed

lemma normalize_rescales:
  assumes no_inf: "\<forall>v\<in>set (concat (vals A)). v \<noteq> PInf \<and> v \<noteq> NInf"
    and mn: "array_min skipna (concat (vals A)) = Fin mn"
    and mx: "array_max skipna (concat (vals A)) = Fin mx"
    and lt: "mn < mx" and range: "mx - mn < overflow_threshold"
  shows "normalize skipna A = Inr (A\<lparr>vals :=
           map (map (\<lambda>v. case v of Fin x \<Rightarrow> Fin ((x - mn) / (mx - mn)) | _ \<Rightarrow> NaN)) (vals A)\<rparr>)"
proof -
  let ?cells = "concat (vals A)"
  have ne: "fins ?cells \<noteq> []" and mn': "mn = Min (set (fins ?cells))"
    using mn unfolding array_min_no_inf [OF no_inf] by (simp_all split: if_splits)
  have mx': "mx = Max (set (fins ?cells))"
    using mx unfolding array_max_no_inf [OF no_inf] by (simp split: if_splits)
  have cells_ne: "?cells \<noteq> []"
  proof
    assume e: "?cells = []"
    have "fins ?cells = []" unfolding e by simp
    with ne show False by contradiction
  qed
  have cell: "fdiv (fsub v (Fin mn)) (fsub (Fin mx) (Fin mn))
      = (case v of Fin x \<Rightarrow> Fin ((x - mn) / (mx - mn)) | _ \<Rightarrow> NaN)"
    if "v \<in> set ?cells" for v
  proof (cases v)
    case (Fin x)
    with that have "x \<in> set (fins ?cells)" by (simp add: set_fins)
    then have "mn \<le> x" and "x \<le> mx" unfolding mn' mx' by simp_all
    then have "fdiv (fsub (Fin x) (Fin mn)) (fsub (Fin mx) (Fin mn)) = Fin ((x - mn) / (mx - mn))"
      using lt range by (rule rescale_cell)
    then show ?thesis unfolding Fin by simp
  next
    case NaN
    then show ?thesis by simp
  qed (use that no_inf in auto)
  have "map (map (\<lambda>v. fdiv (fsub v (Fin mn)) (fsub (Fin mx) (Fin mn)))) (vals A)
      = map (map (\<lambda>v. case v of Fin x \<Rightarrow> Fin ((x - mn) / (mx - mn)) | _ \<Rightarrow> NaN)) (vals A)"
    by (intro map_cong refl cell) auto
  with cells_ne mn mx show ?thesis
    by (simp add: normalize_def Let_def)
qed

lemma Min_scaled:
  fixes S :: "real set"
  assumes "finite S" and "S \<noteq> {}" and "Min S < Max S"
  shows "Min ((\<lambda>x. (x - Min S) / (Max S - Min S)) ` S) = 0"
    and "Max ((\<lambda>x. (x - Min S) / (Max S - Min S)) ` S) = 1"
proof -
  let ?f = "\<lambda>x. (x - Min S) / (Max S - Min S)"
  have "mono ?f"
    using assms(3) by (intro monoI divide_right_mono) simp_all
  from mono_Min_commute [OF this assms(1,2)] mono_Max_commute [OF \<open>mono ?f\<close> assms(1,2)] assms(3)
  show "Min (?f ` S) = 0" and "Max (?f ` S) = 1" by simp_all
qed

lemma fins_rescaled:
  "\<forall>v\<in>set cells. v \<noteq> PInf \<and> v \<noteq> NInf \<Longrightarrow>
   fins (map (\<lambda>v. case v of Fin x \<Rightarrow> Fin (f x) | _ \<Rightarrow> NaN) cells) = map f (fins cells)"
  by (induction cells rule: fins.induct) simp_all

lemma NaN_rescaled:
  "\<forall>v\<in>set cells. v \<noteq> PInf \<and> v \<noteq> NInf \<Longrightarrow>
   NaN \<in> set (map (\<lambda>v. case v of Fin x \<Rightarrow> Fin (f x) | _ \<Rightarrow> NaN) cells) \<longleftrightarrow> NaN \<in> set cells"
  by (induction cells rule: fins.induct) simp_all

text \<open>
  Claim C3, as stated, fails. An array with an infinite cell has its minimum below its
  maximum, and its normalisation has maximum 0 and is not a fixed point of
  \<open>normalize\<close>. So does an array of two numbers whose difference is beyond the range
  of float64.
\<close>

theorem normalize_infinite_cell_or_overflow:
  "array_min True (concat (vals unbounded_grid)) = Fin 1
   \<and> array_max True (concat (vals unbounded_grid)) = PInf
   \<and> vless (Fin 1) PInf
   \<and> normalize True unbounded_grid = Inr (unbounded_grid\<lparr>vals := [[Fin 0, Fin 0, NaN]]\<rparr>)
   \<and> array_max True [Fin 0, Fin 0, NaN] = Fin 0
   \<and> normalize True (unbounded_grid\<lparr>vals := [[Fin 0, Fin 0, NaN]]\<rparr>)
       = Inr (unbounded_grid\<lparr>vals := [[NaN, NaN, NaN]]\<rparr>)
   \<and> array_min True (concat (vals wide_grid)) = Fin (- half_range)
   \<and> array_max True (concat (vals wide_grid)) = Fin half_range
   \<and> - half_range < half_range
   \<and> normalize True wide_grid = Inr (wide_grid\<lparr>vals := [[Fin 0, NaN]]\<rparr>)
   \<and> array_max True [Fin 0, NaN] = Fin 0"
proof -
  have pos: "0 < half_range" by (simp add: half_range_def)
  have "(2::real) ^ 1024 \<le> 3 * 2 ^ 1022 + 3 * 2 ^ 1022" by simp
  then have "overflow_threshold \<le> half_range + half_range"
    by (simp add: overflow_threshold_def half_range_def)
  then have inf: "float64_result (half_range + half_range) = PInf"
    by (simp add: float64_result_def)
  have u: "normalize True unbounded_grid = Inr (unbounded_grid\<lparr>vals := [[Fin 0, Fin 0, NaN]]\<rparr>)"
    "array_min True (concat (vals unbounded_grid)) = Fin 1"
    "array_max True (concat (vals unbounded_grid)) = PInf"
    by (simp_all add: normalize_def unbounded_grid_def array_min_def array_max_def
        reduce_cells_def float64_result_small)
  have u2: "normalize True (unbounded_grid\<lparr>vals := [[Fin 0, Fin 0, NaN]]\<rparr>)
       = Inr (unbounded_grid\<lparr>vals := [[NaN, NaN, NaN]]\<rparr>)"
    "array_max True [Fin 0, Fin 0, NaN] = Fin 0" "array_max True [Fin 0, NaN] = Fin 0"
    by (simp_all add: normalize_def unbounded_grid_def array_min_def array_max_def
        reduce_cells_def float64_result_small)
  have w: "array_min True (concat (vals wide_grid)) = Fin (- half_range)"
    "array_max True (concat (vals wide_grid)) = Fin half_range"
    using pos by (simp_all add: wide_grid_def array_min_def array_max_def reduce_cells_def)
  have w2: "normalize True wide_grid = Inr (wide_grid\<lparr>vals := [[Fin 0, NaN]]\<rparr>)"
    unfolding normalize_def Let_def w using inf
    by (simp add: wide_grid_def)
  from u u2 w w2 pos show ?thesis by simp
qed

text \<open>
  Claim C3, amended. For every float64 array \<open>A\<close> without infinite cells whose minimum
  \<open>mn\<close> is below its maximum \<open>mx\<close>, both as the reductions of the code return them,
  and whose range \<open>mx - mn\<close> is below the overflow threshold, \<open>normalize\<close> returns the
  array \<open>N\<close> that has \<open>(x - mn) / (mx - mn)\<close> where \<open>A\<close> has the number \<open>x\<close> and
  \<open>NaN\<close> where \<open>A\<close> has \<open>NaN\<close>, with the coordinates and the shape of \<open>A\<close>. The
  minimum of \<open>N\<close> is 0, its maximum is 1, and normalising \<open>N\<close> again returns \<open>N\<close>.
  (Masked cells occur only under the reduction that skips them: the other reduction
  returns \<open>NaN\<close>, not a minimum, for an array with a \<open>NaN\<close> cell.)
\<close>

theorem normalize_non_constant:
  assumes "\<forall>v\<in>set (concat (vals A)). v \<noteq> PInf \<and> v \<noteq> NInf"
    and "array_min skipna (concat (vals A)) = Fin mn"
    and "array_max skipna (concat (vals A)) = Fin mx"
    and "mn < mx" and "mx - mn < overflow_threshold"
    and "N = A\<lparr>vals :=
           map (map (\<lambda>v. case v of Fin x \<Rightarrow> Fin ((x - mn) / (mx - mn)) | _ \<Rightarrow> NaN)) (vals A)\<rparr>"
  shows "normalize skipna A = Inr N
     \<and> latitude N = latitude A \<and> longitude N = longitude A
     \<and> map length (vals N) = map length (vals A)
     \<and> array_min skipna (concat (vals N)) = Fin 0
     \<and> array_max skipna (concat (vals N)) = Fin 1
     \<and> normalize skipna N = Inr N"
proof -
  let ?cells = "concat (vals A)"
  let ?f = "\<lambda>x. (x - mn) / (mx - mn)"
  let ?c = "\<lambda>v. case v of Fin x \<Rightarrow> Fin (?f x) | _ \<Rightarrow> NaN"
  note no_inf = assms(1)
  have a: "normalize skipna A = Inr N"
    unfolding assms(6) using assms(1-5) by (rule normalize_rescales)
  have shape: "map length (vals N) = map length (vals A)"
    by (simp add: assms(6) comp_def)
  have ne: "fins ?cells \<noteq> []" and mn: "mn = Min (set (fins ?cells))"
    and nan: "\<not> (\<not> skipna \<and> NaN \<in> set ?cells)"
    using assms(2) unfolding array_min_no_inf [OF no_inf] by (simp_all split: if_splits)
  have mx: "mx = Max (set (fins ?cells))"
    using assms(3) unfolding array_max_no_inf [OF no_inf] by (simp split: if_splits)
  have cellsN: "concat (vals N) = map ?c ?cells"
    by (simp add: assms(6) concat_map_map)
  have no_infN: "\<forall>v\<in>set (concat (vals N)). v \<noteq> PInf \<and> v \<noteq> NInf"
    unfolding cellsN by (auto split: val.splits)
  have finsN: "fins (concat (vals N)) = map ?f (fins ?cells)"
    unfolding cellsN using no_inf by (rule fins_rescaled)
  have nanN: "\<not> (\<not> skipna \<and> NaN \<in> set (concat (vals N)))"
    unfolding cellsN NaN_rescaled [OF no_inf] by (rule nan)
  define S where "S = set (fins ?cells)"
  have fin: "finite S" and neS: "S \<noteq> {}" using ne by (simp_all add: S_def)
  have lt: "Min S < Max S" using assms(4) unfolding mn mx S_def .
  have "Min (?f ` S) = 0" and "Max (?f ` S) = 1"
    unfolding mn mx S_def [symmetric]
    by (rule Min_scaled(1) [OF fin neS lt], rule Min_scaled(2) [OF fin neS lt])
  then have m01: "Min (set (fins (concat (vals N)))) = 0" "Max (set (fins (concat (vals N)))) = 1"
    unfolding finsN S_def by simp_all
  have neN: "fins (concat (vals N)) \<noteq> []" using ne by (simp add: finsN)
  have b: "array_min skipna (concat (vals N)) = Fin 0"
    unfolding array_min_no_inf [OF no_infN] using nanN neN m01 by simp
  have c: "array_max skipna (concat (vals N)) = Fin 1"
    unfolding array_max_no_inf [OF no_infN] using nanN neN m01 by simp
  have "normalize skipna N = Inr (N\<lparr>vals :=
      map (map (\<lambda>v. case v of Fin x \<Rightarrow> Fin ((x - 0) / (1 - 0)) | _ \<Rightarrow> NaN)) (vals N)\<rparr>)"
    using no_infN b c by (rule normalize_rescales) (use overflow_threshold_gt_1 in simp_all)
  also have "map (map (\<lambda>v. case v of Fin x \<Rightarrow> Fin ((x - 0) / (1 - 0)) | _ \<Rightarrow> NaN)) (vals N)
      = map (map (\<lambda>v. v)) (vals N)"
  proof (intro map_cong refl)
    fix row v assume "row \<in> set (vals N)" and "v \<in> set row"
    then have "v \<in> set (concat (vals N))" by auto
    with no_infN show "(case v of Fin x \<Rightarrow> Fin ((x - 0) / (1 - 0)) | _ \<Rightarrow> NaN) = v"
      by (cases v) auto
  qed
  finally have d: "normalize skipna N = Inr N" by simp
  from a shape b c d show ?thesis by (simp add: assms(6))
qed

theorem normalize_non_constant_witness:
  "normalize True ramp_grid
     = Inr \<lparr>latitude = [0, 1], longitude = [10, 20],
            vals = [[Fin 0, Fin (1 / 4)], [Fin (1 / 2), Fin 1]]\<rparr>
   \<and> normalize True \<lparr>latitude = [0, 1], longitude = [10, 20],
            vals = [[Fin 0, Fin (1 / 4)], [Fin (1 / 2), Fin 1]]\<rparr>
     = Inr \<lparr>latitude = [0, 1], longitude = [10, 20],
            vals = [[Fin 0, Fin (1 / 4)], [Fin (1 / 2), Fin 1]]\<rparr>
   \<and> normalize True masked_grid
     = Inr \<lparr>latitude = [0], longitude = [10, 20, 30], vals = [[Fin 0, NaN, Fin 1]]\<rparr>"
proof -
  note T = overflow_threshold_gt_1
  have r1: "\<forall>v\<in>set (concat (vals ramp_grid)). v \<noteq> PInf \<and> v \<noteq> NInf"
    by (simp add: ramp_grid_def)
  have r2: "array_min True (concat (vals ramp_grid)) = Fin 2"
    and r3: "array_max True (concat (vals ramp_grid)) = Fin 10"
    by (simp_all add: ramp_grid_def array_min_def array_max_def reduce_cells_def)
  have r4: "(2::real) < 10" and r5: "(10::real) - 2 < overflow_threshold"
    using overflow_threshold_ge by simp_all
  have m1: "\<forall>v\<in>set (concat (vals masked_grid)). v \<noteq> PInf \<and> v \<noteq> NInf"
    by (simp add: masked_grid_def)
  have m2: "array_min True (concat (vals masked_grid)) = Fin 1"
    and m3: "array_max True (concat (vals masked_grid)) = Fin 3"
    by (simp_all add: masked_grid_def array_min_def array_max_def reduce_cells_def)
  have m4: "(1::real) < 3" and m5: "(3::real) - 1 < overflow_threshold"
    using overflow_threshold_ge by simp_all
  from normalize_non_constant [OF r1 r2 r3 r4 r5 refl]
    normalize_non_constant [OF m1 m2 m3 m4 m5 refl]
  show ?thesis by (simp add: ramp_grid_def masked_grid_def)
qed

lemma fold_const: "\<forall>v\<in>set cs. v = c \<Longrightarrow> pick c c = c \<Longrightarrow> fold pick cs c = c"
  by (induction cs) simp_all

lemma reduce_cells_const:
  assumes "cells \<noteq> []" and "\<forall>v\<in>set cells. v = c" and "pick c c = c"
  shows "reduce_cells pick skipna cells = c"
proof (cases "c = NaN")
  case True
  with assms(2) have "filter (\<lambda>v. v \<noteq> NaN) cells = []"
    by (simp add: filter_empty_conv)
  moreover have "NaN \<in> set cells"
    using assms(1,2) True by (cases cells) simp_all
  ultimately show ?thesis using True by (simp add: reduce_cells_def)
next
  case False
  with assms(2) have keep: "filter (\<lambda>v. v \<noteq> NaN) cells = cells"
    by (auto simp: filter_id_conv)
  have no: "NaN \<notin> set cells" using assms(2) False by auto
  obtain cs where cells: "cells = c # cs"
    using assms(1,2) by (cases cells) simp_all
  have "fold pick cs c = c"
    using assms(2,3) by (intro fold_const) (simp_all add: cells)
  with keep no show ?thesis
    by (simp add: reduce_cells_def cells)
qed

lemma fdiv_fsub_self: "fdiv (fsub c c) (fsub c c) = NaN"
  by (cases c) simp_all

text \<open>
  Claim C4. For a constant array (it has cells, and every cell is the same value \<open>c\<close>),
  \<open>normalize\<close> does not raise: minimum and maximum are both \<open>c\<close>, and the result has
  \<open>NaN\<close> at every position. When \<open>c\<close> is a number, numerator and denominator of every
  cell are both zero, and the division \<open>0 / 0\<close> is what yields \<open>NaN\<close>.
\<close>

theorem normalize_constant:
  assumes "concat (vals A) \<noteq> []" and "\<forall>v\<in>set (concat (vals A)). v = c"
  shows "array_min skipna (concat (vals A)) = c
     \<and> array_max skipna (concat (vals A)) = c
     \<and> normalize skipna A = Inr (A\<lparr>vals := map (map (\<lambda>v. NaN)) (vals A)\<rparr>)
     \<and> (\<forall>x. c = Fin x \<longrightarrow>
          fsub c (array_min skipna (concat (vals A))) = Fin 0
          \<and> fsub (array_max skipna (concat (vals A))) (array_min skipna (concat (vals A))) = Fin 0
          \<and> fdiv (Fin 0) (Fin 0) = NaN)"
proof -
  have mn: "array_min skipna (concat (vals A)) = c"
    unfolding array_min_def using assms by (rule reduce_cells_const) simp
  have mx: "array_max skipna (concat (vals A)) = c"
    unfolding array_max_def using assms by (rule reduce_cells_const) simp
  have "\<forall>row\<in>set (vals A). \<forall>v\<in>set row. v = c"
    using assms(2) by auto
  then have "map (map (\<lambda>v. fdiv (fsub v c) (fsub c c))) (vals A) = map (map (\<lambda>v. NaN)) (vals A)"
    by (simp add: fdiv_fsub_self)
  with assms(1) mn mx have "normalize skipna A = Inr (A\<lparr>vals := map (map (\<lambda>v. NaN)) (vals A)\<rparr>)"
    by (simp add: normalize_def Let_def)
  with mn mx show ?thesis by auto
qed

theorem normalize_constant_witness:
  "normalize False flat_grid
     = Inr \<lparr>latitude = [0, 1], longitude = [10, 20], vals = [[NaN, NaN], [NaN, NaN]]\<rparr>"
proof -
  have ne: "concat (vals flat_grid) \<noteq> []" by (simp add: flat_grid_def)
  have c: "\<forall>v\<in>set (concat (vals flat_grid)). v = Fin 3" by (simp add: flat_grid_def)
  from normalize_constant [OF ne c, of False]
  show ?thesis by (simp add: flat_grid_def)
qed

subsection \<open>Frame properties and the rendered file\<close>

lemma alloc_frame:
  assumes "alloc h g = (h', r)"
  shows "frame h h'" and "r = length h" and "r < length h'" and "h' ! r = g"
  using assms by (auto simp: alloc_def frame_def nth_append)

lemma frame_trans: "frame h h' \<Longrightarrow> frame h' h'' \<Longrightarrow> frame h h''"
  by (auto simp: frame_def)

lemma subset_obj_result:
  assumes "generate_geographical_subset_obj h xarray latmin latmax lonmin lonmax reassign = (h', r)"
  shows "frame h h' \<and> length h \<le> r \<and> r < length h'
     \<and> h' ! r = generate_geographical_subset (h ! xarray) latmin latmax lonmin lonmax reassign"
proof (cases reassign)
  case False
  with assms have a: "alloc h (generate_geographical_subset (h ! xarray) latmin latmax lonmin lonmax reassign) = (h', r)"
    by (simp add: generate_geographical_subset_obj_def generate_geographical_subset_def
        where_obj_def Let_def)
  show ?thesis
    using alloc_frame [OF a] by simp
next
  case True
  let ?g1 = "assign_coords_longitude (h ! xarray)
      (map (\<lambda>lon. mod_360 (lon + 180) - 180) (longitude (h ! xarray)))"
  obtain h1 r1 where a1: "alloc h ?g1 = (h1, r1)"
    by (cases "alloc h ?g1")
  note f1 = alloc_frame [OF a1]
  from True assms a1 have a2: "alloc h1 (where_drop (h1 ! r1)
      (map (\<lambda>lat. map (\<lambda>lon. lat < latmax \<and> lat > latmin \<and> lon < lonmax \<and> lon > lonmin)
          (longitude (h1 ! r1))) (latitude (h1 ! r1)))) = (h', r)"
    by (simp add: generate_geographical_subset_obj_def assign_coords_obj_def where_obj_def)
  note f2 = alloc_frame [OF a2]
  have "generate_geographical_subset (h ! xarray) latmin latmax lonmin lonmax reassign
      = where_drop ?g1
      (map (\<lambda>lat. map (\<lambda>lon. lat < latmax \<and> lat > latmin \<and> lon < lonmax \<and> lon > lonmin)
          (longitude ?g1)) (latitude ?g1))"
    using True by (simp add: generate_geographical_subset_def Let_def)
  then have res: "h' ! r = generate_geographical_subset (h ! xarray) latmin latmax lonmin lonmax reassign"
    using f2(4) unfolding f1(4) by simp
  have fr: "frame h h'" using f1(1) f2(1) by (rule frame_trans)
  have "length h \<le> r" using f1(1) f2(2) by (simp add: frame_def)
  with fr res f2(3) show ?thesis by simp
qed

text \<open>
  Claim C9. None of the three transformations mutates its input. For a live reference
  \<open>xarray\<close>: \<open>generate_geographical_subset\<close> leaves every object of the heap as it
  was and returns a reference to a new object, the subset of the input; in particular,
  after a call with \<open>reassign=True\<close> the caller's grid still has its original
  longitude axis. \<open>normalize\<close> likewise returns a new object (or raises and leaves the
  heap as it was), and \<open>select_channels_for_rgb\<close> leaves the heap as it was.
\<close>

theorem transformations_do_not_mutate:
  assumes "xarray < length h"
  shows "(case generate_geographical_subset_obj h xarray latmin latmax lonmin lonmax reassign of
            (h', r) \<Rightarrow> frame h h' \<and> length h \<le> r \<and> r < length h'
              \<and> h' ! r = generate_geographical_subset (h ! xarray) latmin latmax lonmin lonmax reassign
              \<and> h' ! xarray = h ! xarray)
     \<and> longitude (fst (generate_geographical_subset_obj h xarray latmin latmax lonmin lonmax True) ! xarray)
         = longitude (h ! xarray)
     \<and> (case normalize_obj skipna h xarray of
            (h', Inl e) \<Rightarrow> h' = h \<and> normalize skipna (h ! xarray) = Inl e
          | (h', Inr r) \<Rightarrow> frame h h' \<and> length h \<le> r \<and> r < length h'
              \<and> normalize skipna (h ! xarray) = Inr (h' ! r) \<and> h' ! xarray = h ! xarray)
     \<and> fst (select_channels_for_rgb_obj h bands red_channel green_channel blue_channel) = h"
proof -
  have keep: "frame h h' \<Longrightarrow> h' ! xarray = h ! xarray" for h'
    using assms by (simp add: frame_def)
  have a: "frame h h' \<and> length h \<le> r \<and> r < length h'
      \<and> h' ! r = generate_geographical_subset (h ! xarray) latmin latmax lonmin lonmax b
      \<and> h' ! xarray = h ! xarray"
    if "generate_geographical_subset_obj h xarray latmin latmax lonmin lonmax b = (h', r)"
    for h' r b
    using subset_obj_result [OF that] keep by blast
  have b: "longitude (fst (generate_geographical_subset_obj h xarray latmin latmax lonmin lonmax True) ! xarray)
      = longitude (h ! xarray)"
    using a [of True] by (cases "generate_geographical_subset_obj h xarray latmin latmax lonmin lonmax True") simp
  have c: "case normalize_obj skipna h xarray of
            (h', Inl e) \<Rightarrow> h' = h \<and> normalize skipna (h ! xarray) = Inl e
          | (h', Inr r) \<Rightarrow> frame h h' \<and> length h \<le> r \<and> r < length h'
              \<and> normalize skipna (h ! xarray) = Inr (h' ! r) \<and> h' ! xarray = h ! xarray"
  proof (cases "normalize skipna (h ! xarray)")
    case (Inl e)
    then show ?thesis by (simp add: normalize_obj_def)
  next
    case (Inr g)
    obtain h' r where al: "alloc h g = (h', r)" by (cases "alloc h g")
    note f = alloc_frame [OF al]
    from Inr al f keep [OF f(1)] show ?thesis
      by (simp add: normalize_obj_def)
  qed
  have d: "fst (select_channels_for_rgb_obj h bands red_channel green_channel blue_channel) = h"
    by (simp add: select_channels_for_rgb_obj_def)
  from a b c d show ?thesis
    by (cases "generate_geographical_subset_obj h xarray latmin latmax lonmin lonmax reassign") simp
qed

theorem transformations_do_not_mutate_witness:
  "0 < length heap_example
   \<and> longitude (fst (generate_geographical_subset_obj heap_example 0 (- 10) 10 (- 10) 10 True) ! 0)
       = [350, 355, 0, 5, 10]"
proof -
  have v: "0 < length heap_example" by (simp add: heap_example_def)
  from transformations_do_not_mutate [OF v, of "- 10" 10 "- 10" 10 True True "Map.empty" "[]" "[]" "[]"] v
  show ?thesis by (simp add: heap_example_def scenario_grid_def)
qed





end
